theory Spec2Isabelle
  imports Main
begin

section \<open>The journal server: data model\<close>

text \<open>
  The program is the tool server of \<^verbatim>\<open>claude_journal/server.py\<close>: two handlers,
  \<^verbatim>\<open>handle_journal_write\<close> and \<^verbatim>\<open>handle_journal_search\<close>, over a directory of
  journal files that is also a git working copy. Python strings are modelled as
  \<^typ>\<open>string\<close>, one \<^typ>\<open>char\<close> per code point (so the model covers text whose code
  points are below 256). Paths are strings; \<^verbatim>\<open>a / b\<close> of pathlib is concatenation with
  a slash, for plain component names.
\<close>

type_synonym path = string

definition path_join :: "path \<Rightarrow> string \<Rightarrow> path" where
  "path_join p c = p @ ''/'' @ c"

text \<open>
  The steps of the replication cycle that an operation can execute. Every collaborator
  below records its step in the world when it is called, so the order of the calls of a
  handler can be read off the final world.
\<close>

datatype step = StepPull | StepAppend | StepIndexUpdate | StepCommit | StepPush

text \<open>The exceptions a handler can leave uncaught.\<close>

datatype error =
    KeyError string
  | ReError
  | UnknownScope string

text \<open>
  The world a handler runs in: the contents of the files under the journals directory,
  the project identity sidecars (project directory to stored id, the file
  \<^verbatim>\<open><project>/.claude/journal.json\<close>), the rows of each search index file, the commits
  made (file staged and message), the number of pushes that reached the remote, and the
  steps executed so far.
\<close>

record world =
  files :: "path \<rightharpoonup> string"
  sidecars :: "path \<rightharpoonup> string"
  index_rows :: "path \<rightharpoonup> (string \<times> string \<times> string) list"
  commits :: "(path \<times> string) list"
  pushes :: nat
  steps :: "step list"

text \<open>
  What a handler reads from outside the world: the journals root
  (\<^verbatim>\<open>get_journals_dir()\<close>), the working directory (\<^verbatim>\<open>Path.cwd()\<close>), the current time
  already formatted, the random number the next project id is drawn from, whether the
  journals root is a git repository and has a remote, what the version-control commands
  answer when they are run (success flag and message), what a fetch-and-merge does to
  the working copy, and Python's \<^verbatim>\<open>re.compile(query, re.IGNORECASE)\<close>: \<open>None\<close> when it
  raises \<^verbatim>\<open>re.error\<close>, otherwise the \<^verbatim>\<open>search\<close> test of the compiled pattern.
\<close>

record env =
  journals_dir :: path
  cwd :: path
  now :: string
  random_id :: nat
  is_repo :: bool
  has_remote :: bool
  pull_outcome :: "bool \<times> string"
  pull_merge :: "(path \<rightharpoonup> string) \<Rightarrow> (path \<rightharpoonup> string)"
  commit_outcome :: "bool \<times> string"
  push_outcome :: "bool \<times> string"
  re_compile :: "string \<Rightarrow> (string \<Rightarrow> bool) option"

section \<open>Text primitives of Python\<close>

text \<open>
  \<^verbatim>\<open>str.strip()\<close> removes leading and trailing whitespace: the code points 9 to 13, 28
  to 32, 133 and 160 among those below 256.
\<close>

definition is_space :: "char \<Rightarrow> bool" where
  "is_space c =
     (let n = (of_char c :: nat)
      in (9 \<le> n \<and> n \<le> 13) \<or> (28 \<le> n \<and> n \<le> 32) \<or> n = 133 \<or> n = 160)"

definition py_strip :: "string \<Rightarrow> string" where
  "py_strip s = rev (dropWhile is_space (rev (dropWhile is_space s)))"

text \<open>
  The class \<^verbatim>\<open>\w\<close> of a Python 3 string pattern: alphanumeric code points and the
  underscore. Below 256 these are the ASCII letters and digits, the underscore, the
  Latin-1 letters, and the superscript digits and fractions.
\<close>

definition is_word :: "char \<Rightarrow> bool" where
  "is_word c =
     (let n = (of_char c :: nat)
      in (48 \<le> n \<and> n \<le> 57) \<or> (65 \<le> n \<and> n \<le> 90) \<or> n = 95 \<or> (97 \<le> n \<and> n \<le> 122)
         \<or> n = 170 \<or> n = 178 \<or> n = 179 \<or> n = 181 \<or> n = 185 \<or> n = 186
         \<or> (188 \<le> n \<and> n \<le> 190) \<or> (192 \<le> n \<and> n \<le> 214) \<or> (216 \<le> n \<and> n \<le> 246)
         \<or> 248 \<le> n)"

text \<open>\<^verbatim>\<open>s.startswith(p)\<close> is \<open>starts_with p s\<close>.\<close>

fun starts_with :: "string \<Rightarrow> string \<Rightarrow> bool" where
  "starts_with [] s = True"
| "starts_with (p # ps) [] = False"
| "starts_with (p # ps) (c # cs) = (p = c \<and> starts_with ps cs)"

text \<open>
  \<^verbatim>\<open>s.split(sep)\<close>: the pieces between the non-overlapping occurrences of the separator,
  found from the left. \<open>split_from sep piece s\<close> scans \<open>s\<close> with the current piece
  accumulated in reverse. Python raises \<^verbatim>\<open>ValueError\<close> on an empty separator; the only
  separator the program uses is the record delimiter.
\<close>

fun split_from :: "string \<Rightarrow> string \<Rightarrow> string \<Rightarrow> string list" where
  "split_from sep piece [] = [rev piece]"
| "split_from sep piece (c # cs) =
     (if starts_with sep (c # cs)
      then rev piece # split_from sep [] (drop (length sep - 1) cs)
      else split_from sep (c # piece) cs)"

definition py_split :: "string \<Rightarrow> string \<Rightarrow> string list" where
  "py_split s sep = split_from sep [] s"

text \<open>The substring test \<^verbatim>\<open>q in s\<close> is \<open>contains q s\<close>.\<close>

fun contains :: "string \<Rightarrow> string \<Rightarrow> bool" where
  "contains q [] = (q = [])"
| "contains q (c # cs) = (starts_with q (c # cs) \<or> contains q cs)"

text \<open>\<^verbatim>\<open>sep.join(xs)\<close>.\<close>

fun py_join :: "string \<Rightarrow> string list \<Rightarrow> string" where
  "py_join sep [] = []"
| "py_join sep [x] = x"
| "py_join sep (x # y # ys) = x @ sep @ py_join sep (y # ys)"

text \<open>
  \<^verbatim>\<open>re.search(r"## \[.*?\] (\w+)", entry)\<close>, as the captured group of the leftmost
  match, or \<open>None\<close> when there is no match. \<open>match_after_bracket\<close> is the part of the
  pattern after \<^verbatim>\<open>## \[\<close>: the lazy \<^verbatim>\<open>.*?\<close> first tries to stop at once, and otherwise
  consumes one more character, which must not be a newline.
\<close>

fun match_after_bracket :: "string \<Rightarrow> string option" where
  "match_after_bracket [] = None"
| "match_after_bracket (c # cs) =
     (if starts_with ''] '' (c # cs) \<and> takeWhile is_word (drop 1 cs) \<noteq> []
      then Some (takeWhile is_word (drop 1 cs))
      else if c = CHR 0x0A then None
      else match_after_bracket cs)"

fun header_search :: "string \<Rightarrow> string option" where
  "header_search [] = None"
| "header_search (c # cs) =
     (if starts_with ''## ['' (c # cs)
      then (case match_after_bracket (drop 3 cs) of
              Some g \<Rightarrow> Some g
            | None \<Rightarrow> header_search cs)
      else header_search cs)"

section \<open>Replication layer\<close>

text \<open>
  Modelled from the spec: \<^verbatim>\<open>git_ops.py\<close> (\<^verbatim>\<open>git_pull\<close>, \<^verbatim>\<open>git_commit\<close>, \<^verbatim>\<open>git_push\<close>) is
  not among the sources. Pull fails with "not a git repository" when the path is not a
  repository, succeeds trivially with "no remote configured" when there is no remote,
  and otherwise fetches and merges, with the outcome of the underlying command. Commit
  and push have the same not-a-repository failure; commit stages exactly the given file
  and records a commit with the message; push succeeds trivially without a remote.
  Commit and push never write to the working copy. The handlers always pass the
  journals root as the repository, so the repository is not a parameter here: whether
  it is one, and whether it has a remote, is read from the environment.
\<close>

definition git_pull :: "env \<Rightarrow> world \<Rightarrow> (bool \<times> string) \<times> world" where
  "git_pull e w =
     (let w' = w\<lparr>steps := steps w @ [StepPull]\<rparr> in
      if \<not> is_repo e then ((False, ''not a git repository''), w')
      else if \<not> has_remote e then ((True, ''no remote configured''), w')
      else (pull_outcome e, w'\<lparr>files := pull_merge e (files w)\<rparr>))"

definition git_commit :: "env \<Rightarrow> world \<Rightarrow> path \<Rightarrow> string \<Rightarrow> (bool \<times> string) \<times> world" where
  "git_commit e w file_path message =
     (let w' = w\<lparr>steps := steps w @ [StepCommit]\<rparr> in
      if \<not> is_repo e then ((False, ''not a git repository''), w')
      else if fst (commit_outcome e)
        then (commit_outcome e, w'\<lparr>commits := commits w @ [(file_path, message)]\<rparr>)
        else (commit_outcome e, w'))"

definition git_push :: "env \<Rightarrow> world \<Rightarrow> (bool \<times> string) \<times> world" where
  "git_push e w =
     (let w' = w\<lparr>steps := steps w @ [StepPush]\<rparr> in
      if \<not> is_repo e then ((False, ''not a git repository''), w')
      else if \<not> has_remote e then ((True, ''no remote configured''), w')
      else if fst (push_outcome e)
        then (push_outcome e, w'\<lparr>pushes := Suc (pushes w)\<rparr>)
        else (push_outcome e, w'))"

section \<open>Journal log\<close>

text \<open>
  Modelled from the spec: \<^verbatim>\<open>journal.py\<close> (\<^verbatim>\<open>format_entry\<close>, \<^verbatim>\<open>append_entry\<close>,
  \<^verbatim>\<open>read_journal\<close>, \<^verbatim>\<open>generate_project_id\<close>, \<^verbatim>\<open>get_or_create_project_id\<close>,
  \<^verbatim>\<open>get_project_journal_path\<close>, \<^verbatim>\<open>resolve_journal_path\<close>) is not among the sources; its
  tests are. The serialized form of an entry is
  \<^verbatim>\<open>## [<timestamp>] <type>\n\n<content>\n\n---\n\<close>. The timestamp is taken already
  formatted; the writer formats the current time as \<^verbatim>\<open>YYYY-MM-DD HH:MM:SS\<close>.
\<close>

definition format_entry :: "string \<Rightarrow> string \<Rightarrow> string \<Rightarrow> string" where
  "format_entry content entry_type timestamp =
     ''## ['' @ timestamp @ ''] '' @ entry_type @ ''\<newline>\<newline>'' @ content @ ''\<newline>\<newline>---\<newline>''"

text \<open>
  Modelled from the spec: reading returns the whole file, or the empty string when the
  file is absent.
\<close>

definition read_journal :: "world \<Rightarrow> path \<Rightarrow> string" where
  "read_journal w p = (case files w p of None \<Rightarrow> [] | Some s \<Rightarrow> s)"

text \<open>
  Modelled from the spec: appending encodes a new entry with the current timestamp and
  appends it to the file, creating the file if absent; it never reads back or validates
  what the file held.
\<close>

definition append_entry :: "env \<Rightarrow> world \<Rightarrow> path \<Rightarrow> string \<Rightarrow> string \<Rightarrow> world" where
  "append_entry e w p content entry_type =
     w\<lparr>files := (files w)(p \<mapsto> read_journal w p @ format_entry content entry_type (now e)),
       steps := steps w @ [StepAppend]\<rparr>"

text \<open>
  Modelled from the spec: a project id is an 8-character lowercase-hex string, purely
  random. The randomness is the number \<^const>\<open>random_id\<close> of the environment.
\<close>

definition hex_digit :: "nat \<Rightarrow> char" where
  "hex_digit n = ''0123456789abcdef'' ! (n mod 16)"

definition generate_project_id :: "nat \<Rightarrow> string" where
  "generate_project_id r = map (\<lambda>i. hex_digit (r div 16 ^ i)) [7, 6, 5, 4, 3, 2, 1, 0]"

text \<open>
  Modelled from the spec: the id of a project directory is read from its sidecar, and
  created (generated and persisted) on first use.
\<close>

definition get_or_create_project_id :: "env \<Rightarrow> world \<Rightarrow> path \<Rightarrow> string \<times> world" where
  "get_or_create_project_id e w project_dir =
     (case sidecars w project_dir of
        Some project_id \<Rightarrow> (project_id, w)
      | None \<Rightarrow>
          (let project_id = generate_project_id (random_id e)
           in (project_id, w\<lparr>sidecars := (sidecars w)(project_dir \<mapsto> project_id)\<rparr>)))"

text \<open>
  Modelled from the spec: the journal of a project is \<^verbatim>\<open><journalsRoot>/<id>/journal.md\<close>,
  the global journal is \<^verbatim>\<open><journalsRoot>/global/journal.md\<close>.
\<close>

definition get_project_journal_path :: "env \<Rightarrow> string \<Rightarrow> path" where
  "get_project_journal_path e project_id =
     path_join (path_join (journals_dir e) project_id) ''journal.md''"

definition global_journal_path :: "env \<Rightarrow> path" where
  "global_journal_path e = path_join (path_join (journals_dir e) ''global'') ''journal.md''"

text \<open>
  Modelled from the spec: \<^verbatim>\<open>resolve(scope, workingDirectory)\<close> is a fixed path under the
  journals root for \<^verbatim>\<open>global\<close>, and the journal of the (possibly new) project id for
  \<^verbatim>\<open>project\<close>. The spec names no other scope; the model rejects one. Directories are
  implicit in the paths of the files.
\<close>

definition resolve_journal_path :: "env \<Rightarrow> world \<Rightarrow> string \<Rightarrow> path \<Rightarrow> error + path \<times> world" where
  "resolve_journal_path e w scope dir =
     (if scope = ''global'' then Inr (global_journal_path e, w)
      else if scope = ''project'' then
        (case get_or_create_project_id e w dir of
           (project_id, w') \<Rightarrow> Inr (get_project_journal_path e project_id, w'))
      else Inl (UnknownScope scope))"

section \<open>Search index\<close>

text \<open>
  Modelled from the spec: \<^verbatim>\<open>index.py\<close> is not among the sources. The incremental update
  creates the index if absent and inserts a single row.
\<close>

definition add_entry_to_index :: "world \<Rightarrow> path \<Rightarrow> string \<Rightarrow> string \<Rightarrow> string \<Rightarrow> world" where
  "add_entry_to_index w index_path timestamp entry_type content =
     w\<lparr>index_rows := (index_rows w)(index_path \<mapsto>
          (case index_rows w index_path of None \<Rightarrow> [] | Some rows \<Rightarrow> rows)
            @ [(timestamp, entry_type, content)]),
       steps := steps w @ [StepIndexUpdate]\<rparr>"

section \<open>The write handler\<close>

text \<open>
  \<^verbatim>\<open>handle_journal_write(arguments)\<close>. The arguments are a dictionary of strings; the
  result is the list of the texts of the \<^verbatim>\<open>TextContent\<close> items returned, or the exception
  raised, together with the world the handler leaves behind.
\<close>

definition handle_journal_write ::
  "env \<Rightarrow> world \<Rightarrow> (string \<rightharpoonup> string) \<Rightarrow> (error + string list) \<times> world" where
  "handle_journal_write e w arguments =
     (case arguments ''content'' of
        None \<Rightarrow> (Inl (KeyError ''content''), w)
      | Some content \<Rightarrow>
     (case arguments ''type'' of
        None \<Rightarrow> (Inl (KeyError ''type''), w)
      | Some entry_type \<Rightarrow>
     (let scope = (case arguments ''scope'' of None \<Rightarrow> ''project'' | Some s \<Rightarrow> s) in
      case git_pull e w of ((pull_success, pull_msg), w1) \<Rightarrow>
        if \<not> pull_success then (Inr [''Warning: '' @ pull_msg], w1)
        else
          (case resolve_journal_path e w1 scope (cwd e) of
             Inl err \<Rightarrow> (Inl err, w1)
           | Inr (journal_path, w2) \<Rightarrow>
              (let w3 = append_entry e w2 journal_path content entry_type;
                   commit_msg = ''['' @ scope @ ''] '' @ entry_type @ '': '' @ take 50 content
               in case git_commit e w3 journal_path commit_msg of
                    ((commit_success, commit_msg_result), w4) \<Rightarrow>
                 if \<not> commit_success
                 then (Inr [''Entry written but commit failed: '' @ commit_msg_result], w4)
                 else
                   (case git_push e w4 of ((push_success, push_msg), w5) \<Rightarrow>
                      if \<not> push_success
                      then (Inr [''Entry written and committed, but push failed: '' @ push_msg], w5)
                      else (Inr [''Journal entry written to '' @ journal_path], w5)))))))"

section \<open>The search handler\<close>

text \<open>The record delimiter and the separator of the blocks in a search result.\<close>

definition delimiter :: string where
  "delimiter = ''\<newline>---\<newline>''"

definition result_separator :: string where
  "result_separator = ''\<newline>\<newline>---\<newline>\<newline>''"

text \<open>
  The type filter of the loop body: with a non-empty \<^verbatim>\<open>entry_type\<close>, an entry is
  skipped when the header pattern does not match or its group differs from the type.
\<close>

definition type_mismatch :: "string option \<Rightarrow> string \<Rightarrow> bool" where
  "type_mismatch entry_type entry =
     (case entry_type of
        None \<Rightarrow> False
      | Some ty \<Rightarrow>
          ty \<noteq> [] \<and> (case header_search entry of None \<Rightarrow> True | Some g \<Rightarrow> g \<noteq> ty))"

text \<open>The inner loop, over the entries of one journal, appending to \<^verbatim>\<open>results\<close>.\<close>

fun scan_entries ::
  "(string \<Rightarrow> bool) \<Rightarrow> string option \<Rightarrow> string list \<Rightarrow> string list \<Rightarrow> string list" where
  "scan_entries pattern entry_type [] results = results"
| "scan_entries pattern entry_type (entry # entries) results =
     (if py_strip entry = [] then scan_entries pattern entry_type entries results
      else if \<not> pattern entry then scan_entries pattern entry_type entries results
      else if type_mismatch entry_type entry
        then scan_entries pattern entry_type entries results
      else scan_entries pattern entry_type entries (results @ [py_strip entry]))"

text \<open>The outer loop, over the journals to search.\<close>

fun scan_journals ::
  "world \<Rightarrow> (string \<Rightarrow> bool) \<Rightarrow> string option \<Rightarrow> path list \<Rightarrow> string list \<Rightarrow> string list" where
  "scan_journals w pattern entry_type [] results = results"
| "scan_journals w pattern entry_type (journal_path # journals) results =
     (let content = read_journal w journal_path
      in if content = [] then scan_journals w pattern entry_type journals results
         else scan_journals w pattern entry_type journals
                (scan_entries pattern entry_type (py_split content delimiter) results))"

text \<open>Which journals a scope selects; the project scope resolves the project id.\<close>

definition journals_to_search :: "env \<Rightarrow> world \<Rightarrow> string \<Rightarrow> path list \<times> world" where
  "journals_to_search e w scope =
     (let journals = (if scope = ''global'' \<or> scope = ''both''
                      then [global_journal_path e] else [])
      in if scope = ''project'' \<or> scope = ''both''
         then (case get_or_create_project_id e w (cwd e) of
                 (project_id, w') \<Rightarrow> (journals @ [get_project_journal_path e project_id], w'))
         else (journals, w))"

text \<open>\<^verbatim>\<open>handle_journal_search(arguments)\<close>.\<close>

definition handle_journal_search ::
  "env \<Rightarrow> world \<Rightarrow> (string \<rightharpoonup> string) \<Rightarrow> (error + string list) \<times> world" where
  "handle_journal_search e w arguments =
     (case arguments ''query'' of
        None \<Rightarrow> (Inl (KeyError ''query''), w)
      | Some query \<Rightarrow>
     (let scope = (case arguments ''scope'' of None \<Rightarrow> ''both'' | Some s \<Rightarrow> s);
          entry_type = arguments ''type''
      in case git_pull e w of (pull_result, w1) \<Rightarrow>
         (case journals_to_search e w1 scope of (journals, w2) \<Rightarrow>
         (case re_compile e query of
            None \<Rightarrow> (Inl ReError, w2)
          | Some pattern \<Rightarrow>
             (let results = scan_journals w2 pattern entry_type journals []
              in if results = [] then (Inr [''No matching journal entries found''], w2)
                 else (Inr [py_join result_separator results], w2))))))"

text \<open>The order of steps the specification gives for a write.\<close>

definition spec_write_steps :: "step list" where
  "spec_write_steps = [StepPull, StepAppend, StepIndexUpdate, StepCommit, StepPush]"

text \<open>
  The entries of one journal as the search loop sees them: none for an empty or absent
  file, otherwise the pieces between the delimiters.
\<close>

definition journal_entries :: "world \<Rightarrow> path \<Rightarrow> string list" where
  "journal_entries w journal_path =
     (if read_journal w journal_path = [] then []
      else py_split (read_journal w journal_path) delimiter)"

text \<open>
  The three tests of the loop body together: an entry is appended to the results when
  it is not blank, the pattern is found in it, and the type filter does not reject it.
\<close>

definition entry_selected :: "(string \<Rightarrow> bool) \<Rightarrow> string option \<Rightarrow> string \<Rightarrow> bool" where
  "entry_selected pattern entry_type entry =
     (py_strip entry \<noteq> [] \<and> pattern entry \<and> \<not> type_mismatch entry_type entry)"

section \<open>Staleness of the search index\<close>


section \<open>Sample inputs\<close>

text \<open>
  The answers of the regular-expression engine in the examples. No property below
  assumes this engine: it only supplies \<^const>\<open>re_compile\<close> for the sample environment,
  and the examples consult it at three queries, where it answers as
  \<^verbatim>\<open>re.compile(query, re.IGNORECASE)\<close> does on the sample journals: the words "Entry" and
  "implementing" compile to substring search up to the case of ASCII letters, and a
  lone opening parenthesis is rejected. It does not describe Python on other patterns
  or on other text.
\<close>

definition ascii_lower :: "char \<Rightarrow> char" where
  "ascii_lower c =
     (case map_of (zip ''ABCDEFGHIJKLMNOPQRSTUVWXYZ'' ''abcdefghijklmnopqrstuvwxyz'') c of
        None \<Rightarrow> c
      | Some l \<Rightarrow> l)"

definition contains_ic :: "string \<Rightarrow> string \<Rightarrow> bool" where
  "contains_ic q s = contains (map ascii_lower q) (map ascii_lower s)"

definition is_plain :: "string \<Rightarrow> bool" where
  "is_plain q =
     list_all (\<lambda>c. let n = (of_char c :: nat)
                    in n = 32 \<or> (48 \<le> n \<and> n \<le> 57) \<or> (65 \<le> n \<and> n \<le> 90)
                       \<or> (97 \<le> n \<and> n \<le> 122)) q"

definition plain_text_engine :: "string \<Rightarrow> (string \<Rightarrow> bool) option" where
  "plain_text_engine q = (if is_plain q then Some (contains_ic q) else None)"

definition sample_world :: world where
  "sample_world =
     \<lparr>files = Map.empty, sidecars = Map.empty, index_rows = Map.empty,
      commits = [], pushes = 0, steps = []\<rparr>"

definition sample_env :: env where
  "sample_env =
     \<lparr>journals_dir = ''/j'', cwd = ''/p'', now = ''2025-10-06 14:30:45'',
      random_id = 2750984905, is_repo = True, has_remote = True,
      pull_outcome = (True, ''pulled''), pull_merge = (\<lambda>fs. fs),
      commit_outcome = (True, ''committed''), push_outcome = (True, ''pushed''),
      re_compile = plain_text_engine\<rparr>"

definition sample_write_args :: "string \<rightharpoonup> string" where
  "sample_write_args =
     [''content'' \<mapsto> ''First entry'', ''type'' \<mapsto> ''insight'', ''scope'' \<mapsto> ''global'']"

text \<open>
  A journal of two entries, a journal whose only entry holds the word "implement", the
  worlds that hold them as the global journal, and the arguments of some searches.
\<close>

definition sample_journal :: string where
  "sample_journal = ''## [2025-10-06 14:30:00] insight\<newline>\<newline>An insight entry\<newline>\<newline>---\<newline>## [2025-10-06 15:00:00] decision\<newline>\<newline>A decision entry\<newline>\<newline>---\<newline>''"

definition stem_journal :: string where
  "stem_journal = ''## [2025-10-06 14:30:00] insight\<newline>\<newline>We implement features\<newline>\<newline>---\<newline>''"

definition search_world :: world where
  "search_world = sample_world\<lparr>files := [''/j/global/journal.md'' \<mapsto> sample_journal]\<rparr>"

definition stem_world :: world where
  "stem_world = sample_world\<lparr>files := [''/j/global/journal.md'' \<mapsto> stem_journal]\<rparr>"

definition typed_search_args :: "string \<rightharpoonup> string" where
  "typed_search_args = [''query'' \<mapsto> ''Entry'', ''scope'' \<mapsto> ''global'', ''type'' \<mapsto> ''decision'']"

definition plain_search_args :: "string \<rightharpoonup> string" where
  "plain_search_args = [''query'' \<mapsto> ''Entry'', ''scope'' \<mapsto> ''global'']"

definition project_search_args :: "string \<rightharpoonup> string" where
  "project_search_args = [''query'' \<mapsto> ''Entry'', ''scope'' \<mapsto> ''project'']"

definition invalid_search_args :: "string \<rightharpoonup> string" where
  "invalid_search_args = [''query'' \<mapsto> ''('', ''scope'' \<mapsto> ''global'']"

definition stem_search_args :: "string \<rightharpoonup> string" where
  "stem_search_args = [''query'' \<mapsto> ''implementing'', ''scope'' \<mapsto> ''global'']"

definition insight_entry :: string where
  "insight_entry = ''## [2025-10-06 14:30:00] insight\<newline>\<newline>An insight entry\<newline>''"

definition decision_entry :: string where
  "decision_entry = ''## [2025-10-06 15:00:00] decision\<newline>\<newline>A decision entry\<newline>''"

section \<open>Facts about the collaborators\<close>

lemma sample_write_args_simps:
  "sample_write_args ''content'' = Some ''First entry''"
  "sample_write_args ''type'' = Some ''insight''"
  "sample_write_args ''scope'' = Some ''global''"
  by (simp_all add: sample_write_args_def)

lemma git_pull_result:
  "fst (fst (git_pull e w)) = (is_repo e \<and> (\<not> has_remote e \<or> fst (pull_outcome e)))"
  "snd (git_pull e w) = w\<lparr>steps := steps w @ [StepPull],
      files := (if is_repo e \<and> has_remote e then pull_merge e (files w) else files w)\<rparr>"
  by (simp_all add: git_pull_def Let_def)

lemma git_pull_failed_frame:
  assumes "git_pull e w = ((False, pull_msg), w1)"
  shows "steps w1 = steps w @ [StepPull]" "commits w1 = commits w" "pushes w1 = pushes w"
    "index_rows w1 = index_rows w" "sidecars w1 = sidecars w"
    "files w1 = (if is_repo e \<and> has_remote e then pull_merge e (files w) else files w)"
  using assms unfolding git_pull_def Let_def by (auto split: if_splits)

lemma git_commit_result:
  "fst (fst (git_commit e w p m)) = (is_repo e \<and> fst (commit_outcome e))"
  "snd (fst (git_commit e w p m)) =
     (if is_repo e then snd (commit_outcome e) else ''not a git repository'')"
  "snd (git_commit e w p m) = w\<lparr>steps := steps w @ [StepCommit],
      commits := (if is_repo e \<and> fst (commit_outcome e)
                  then commits w @ [(p, m)] else commits w)\<rparr>"
  by (simp_all add: git_commit_def Let_def)

lemma git_push_result:
  "fst (fst (git_push e w)) = (is_repo e \<and> (\<not> has_remote e \<or> fst (push_outcome e)))"
  "snd (fst (git_push e w)) =
     (if \<not> is_repo e then ''not a git repository''
      else if \<not> has_remote e then ''no remote configured'' else snd (push_outcome e))"
  "snd (git_push e w) = w\<lparr>steps := steps w @ [StepPush],
      pushes := (if is_repo e \<and> has_remote e \<and> fst (push_outcome e)
                 then Suc (pushes w) else pushes w)\<rparr>"
  by (simp_all add: git_push_def Let_def)

lemma resolve_journal_path_frame:
  assumes "resolve_journal_path e w scope d = Inr (p, w')"
  shows "steps w' = steps w" "index_rows w' = index_rows w" "files w' = files w"
    "commits w' = commits w" "pushes w' = pushes w"
  using assms
  by (auto simp: resolve_journal_path_def get_or_create_project_id_def Let_def
      split: if_splits option.splits)

lemma resolve_journal_path_known:
  assumes "scope = ''global'' \<or> scope = ''project''"
  shows "\<exists>p w'. resolve_journal_path e w scope d = Inr (p, w')"
  using assms
  by (auto simp: resolve_journal_path_def get_or_create_project_id_def Let_def
      split: if_splits option.splits)

lemma sample_pull_not_a_repo:
  "git_pull (sample_env\<lparr>is_repo := False\<rparr>) sample_world
     = ((False, ''not a git repository''), sample_world\<lparr>steps := [StepPull]\<rparr>)"
  by (simp add: git_pull_def sample_env_def sample_world_def)

lemma sample_pull_ok:
  "git_pull (sample_env\<lparr>push_outcome := (False, ''rejected'')\<rparr>) sample_world
     = ((True, ''pulled''), sample_world\<lparr>steps := [StepPull]\<rparr>)"
  by (simp add: git_pull_def sample_env_def sample_world_def)

lemma sample_resolve_global:
  "resolve_journal_path e w ''global'' d = Inr (global_journal_path e, w)"
  by (simp add: resolve_journal_path_def)

section \<open>Facts about the search loop\<close>

lemma scan_entries_eq:
  "scan_entries pattern entry_type entries results =
     results @ map py_strip (filter (entry_selected pattern entry_type) entries)"
  by (induction entries arbitrary: results) (simp_all add: entry_selected_def)

lemma scan_journals_eq:
  "scan_journals w pattern entry_type journals results =
     results @ concat (map (\<lambda>j. map py_strip
        (filter (entry_selected pattern entry_type) (journal_entries w j))) journals)"
  by (induction journals arbitrary: results)
     (simp_all add: Let_def journal_entries_def scan_entries_eq)

lemma handle_journal_search_run:
  assumes "arguments ''query'' = Some query"
    and "journals_to_search e (snd (git_pull e w))
           (case arguments ''scope'' of None \<Rightarrow> ''both'' | Some s \<Rightarrow> s) = (journals, w2)"
  shows "handle_journal_search e w arguments =
     (case re_compile e query of
        None \<Rightarrow> (Inl ReError, w2)
      | Some pattern \<Rightarrow>
         (if scan_journals w2 pattern (arguments ''type'') journals [] = []
          then (Inr [''No matching journal entries found''], w2)
          else (Inr [py_join result_separator
                  (scan_journals w2 pattern (arguments ''type'') journals [])], w2)))"
proof -
  obtain r w1 where pull: "git_pull e w = (r, w1)"
    by (cases "git_pull e w")
  with assms(2) have "journals_to_search e w1
      (case arguments ''scope'' of None \<Rightarrow> ''both'' | Some s \<Rightarrow> s) = (journals, w2)"
    by simp
  with assms(1) pull show ?thesis
    by (simp add: handle_journal_search_def Let_def split: option.splits)
qed

lemma journals_to_search_frame:
  assumes "journals_to_search e w scope = (journals, w2)"
  shows "files w2 = files w" "steps w2 = steps w" "commits w2 = commits w"
    "pushes w2 = pushes w" "index_rows w2 = index_rows w"
  using assms
  by (auto simp: journals_to_search_def get_or_create_project_id_def Let_def
      split: if_splits option.splits)

lemma hex_digit_in: "hex_digit n \<in> set ''0123456789abcdef''"
proof -
  have "n mod 16 < length ''0123456789abcdef''" by simp
  then show ?thesis unfolding hex_digit_def by (rule nth_mem)
qed

lemma generate_project_id_shape:
  "length (generate_project_id r) = 8"
  "set (generate_project_id r) \<subseteq> set ''0123456789abcdef''"
  using hex_digit_in by (auto simp: generate_project_id_def)

section \<open>Evaluating the sample inputs\<close>

lemma typed_search_args_simps:
  "typed_search_args ''query'' = Some ''Entry''"
  "typed_search_args ''scope'' = Some ''global''"
  "typed_search_args ''type'' = Some ''decision''"
  by (simp_all add: typed_search_args_def)

lemma plain_search_args_simps:
  "plain_search_args ''query'' = Some ''Entry''"
  "plain_search_args ''scope'' = Some ''global''"
  "plain_search_args ''type'' = None"
  by (simp_all add: plain_search_args_def)

lemma project_search_args_simps:
  "project_search_args ''query'' = Some ''Entry''"
  "project_search_args ''scope'' = Some ''project''"
  "project_search_args ''type'' = None"
  by (simp_all add: project_search_args_def)

lemma stem_search_args_simps:
  "stem_search_args ''query'' = Some ''implementing''"
  "stem_search_args ''scope'' = Some ''global''"
  "stem_search_args ''type'' = None"
  by (simp_all add: stem_search_args_def)

lemma sample_env_simps:
  "journals_dir sample_env = ''/j''" "cwd sample_env = ''/p''"
  "is_repo sample_env" "has_remote sample_env"
  "pull_merge sample_env fs = fs" "re_compile sample_env = plain_text_engine"
  "random_id sample_env = 2750984905"
  by (simp_all add: sample_env_def)

lemma global_journal_path_sample: "global_journal_path sample_env = ''/j/global/journal.md''"
  by (simp add: global_journal_path_def path_join_def sample_env_simps)

lemma journals_to_search_global:
  "journals_to_search e w ''global'' = ([global_journal_path e], w)"
  by (simp add: journals_to_search_def)

lemma plain_engine_Entry: "plain_text_engine ''Entry'' = Some (contains_ic ''Entry'')"
  by (simp add: plain_text_engine_def is_plain_def)

lemma plain_engine_implementing:
  "plain_text_engine ''implementing'' = Some (contains_ic ''implementing'')"
  by (simp add: plain_text_engine_def is_plain_def)

lemma sample_journal_split:
  "py_split sample_journal delimiter = [insight_entry, decision_entry, []]"
  by (simp add: py_split_def delimiter_def sample_journal_def insight_entry_def
      decision_entry_def)

lemma stem_journal_split:
  "py_split stem_journal delimiter
     = [''## [2025-10-06 14:30:00] insight\<newline>\<newline>We implement features\<newline>'', []]"
  by (simp add: py_split_def delimiter_def stem_journal_def)

lemma sample_entry_strip:
  "py_strip insight_entry = ''## [2025-10-06 14:30:00] insight\<newline>\<newline>An insight entry''"
  "py_strip decision_entry = ''## [2025-10-06 15:00:00] decision\<newline>\<newline>A decision entry''"
  "py_strip [] = []"
  by (simp_all add: py_strip_def is_space_def insight_entry_def decision_entry_def)

lemma sample_entry_header:
  "header_search insight_entry = Some ''insight''"
  "header_search decision_entry = Some ''decision''"
  by (simp_all add: is_word_def insight_entry_def decision_entry_def)

lemma sample_entry_match:
  "contains_ic ''Entry'' insight_entry" "contains_ic ''Entry'' decision_entry"
  by (simp_all add: contains_ic_def ascii_lower_def insight_entry_def decision_entry_def)

lemma stem_entry_no_match:
  "\<not> contains_ic ''implementing''
       ''## [2025-10-06 14:30:00] insight\<newline>\<newline>We implement features\<newline>''"
  by (simp add: contains_ic_def ascii_lower_def)

lemma search_world_entries:
  "journal_entries (search_world\<lparr>steps := s\<rparr>) ''/j/global/journal.md''
     = [insight_entry, decision_entry, []]"
proof -
  have "read_journal (search_world\<lparr>steps := s\<rparr>) ''/j/global/journal.md'' = sample_journal"
    by (simp add: read_journal_def search_world_def)
  moreover have "sample_journal \<noteq> []" by (simp add: sample_journal_def)
  ultimately show ?thesis by (simp add: journal_entries_def sample_journal_split)
qed

lemma sample_scan_typed:
  "scan_journals (search_world\<lparr>steps := s\<rparr>) (contains_ic ''Entry'') (Some ''decision'')
     [''/j/global/journal.md''] []
   = [''## [2025-10-06 15:00:00] decision\<newline>\<newline>A decision entry'']"
  by (simp add: scan_journals_eq search_world_entries entry_selected_def type_mismatch_def
      sample_entry_strip sample_entry_header sample_entry_match)

lemma sample_scan_plain:
  "concat (map (\<lambda>j. map py_strip (filter (entry_selected (contains_ic ''Entry'') None)
       (journal_entries (search_world\<lparr>steps := s\<rparr>) j))) [''/j/global/journal.md''])
   = [''## [2025-10-06 14:30:00] insight\<newline>\<newline>An insight entry'',
      ''## [2025-10-06 15:00:00] decision\<newline>\<newline>A decision entry'']"
  by (simp add: search_world_entries entry_selected_def type_mismatch_def
      sample_entry_strip sample_entry_header sample_entry_match)

lemma sample_pull_search:
  "snd (git_pull sample_env search_world) = search_world\<lparr>steps := [StepPull]\<rparr>"
  by (simp add: git_pull_result sample_env_simps search_world_def sample_world_def)

lemma invalid_search_args_simps:
  "invalid_search_args ''query'' = Some ''(''"
  "invalid_search_args ''scope'' = Some ''global''"
  "invalid_search_args ''type'' = None"
  by (simp_all add: invalid_search_args_def)

lemma plain_engine_paren: "plain_text_engine ''('' = None"
  by (simp add: plain_text_engine_def is_plain_def)

lemma sample_journals_global:
  "journals_to_search sample_env (snd (git_pull sample_env search_world))
      (case Some ''global'' of None \<Rightarrow> ''both'' | Some s \<Rightarrow> s)
    = ([''/j/global/journal.md''], search_world\<lparr>steps := [StepPull]\<rparr>)"
  by (simp add: journals_to_search_global global_journal_path_sample sample_pull_search)

lemma stem_world_entries:
  "journal_entries (stem_world\<lparr>steps := s\<rparr>) ''/j/global/journal.md''
     = [''## [2025-10-06 14:30:00] insight\<newline>\<newline>We implement features\<newline>'', []]"
proof -
  have "read_journal (stem_world\<lparr>steps := s\<rparr>) ''/j/global/journal.md'' = stem_journal"
    by (simp add: read_journal_def stem_world_def)
  moreover have "stem_journal \<noteq> []" by (simp add: stem_journal_def)
  ultimately show ?thesis by (simp add: journal_entries_def stem_journal_split)
qed

lemma stem_pull_search:
  "snd (git_pull sample_env stem_world) = stem_world\<lparr>steps := [StepPull]\<rparr>"
  by (simp add: git_pull_result sample_env_simps stem_world_def sample_world_def)

lemma sample_project_id: "generate_project_id 2750984905 = ''a3f8b2c9''"
  by (simp add: generate_project_id_def hex_digit_def)

section \<open>Properties of the write handler\<close>

text \<open>
  Claim C1, as amended. When the pull fails, the write stops there: the handler returns
  the single text "Warning: " followed by the pull message, and the world it leaves is
  the one the pull left. No append, commit, push or index update is executed, and the
  files are those the pull attempt left (unchanged when the journals root is not a
  repository or has no remote).
\<close>

theorem write_pull_failure_aborts:
  assumes "arguments ''content'' = Some content" and "arguments ''type'' = Some entry_type"
    and "git_pull e w = ((False, pull_msg), w1)"
  shows "handle_journal_write e w arguments = (Inr [''Warning: '' @ pull_msg], w1)
     \<and> steps w1 = steps w @ [StepPull] \<and> commits w1 = commits w \<and> pushes w1 = pushes w
     \<and> index_rows w1 = index_rows w
     \<and> files w1 = (if is_repo e \<and> has_remote e then pull_merge e (files w) else files w)"
proof -
  have "handle_journal_write e w arguments = (Inr [''Warning: '' @ pull_msg], w1)"
    unfolding handle_journal_write_def using assms by simp
  with git_pull_failed_frame[OF assms(3)] show ?thesis by simp
qed

text \<open>Witness for C1: a write into a journals root that is not a repository.\<close>

theorem write_pull_failure_aborts_witness:
  "sample_write_args ''content'' = Some ''First entry''
   \<and> sample_write_args ''type'' = Some ''insight''
   \<and> git_pull (sample_env\<lparr>is_repo := False\<rparr>) sample_world
        = ((False, ''not a git repository''), sample_world\<lparr>steps := [StepPull]\<rparr>)
   \<and> handle_journal_write (sample_env\<lparr>is_repo := False\<rparr>) sample_world sample_write_args
        = (Inr [''Warning: not a git repository''], sample_world\<lparr>steps := [StepPull]\<rparr>)"
  using write_pull_failure_aborts[OF sample_write_args_simps(1,2) sample_pull_not_a_repo]
    sample_write_args_simps(1,2) sample_pull_not_a_repo
  by simp

text \<open>
  Counterexample to C1 as stated: the pull fails (the journals root is not a
  repository), and after the write the global journal does not hold the entry; the file
  does not even exist.
\<close>

theorem failed_pull_skips_append:
  "fst (fst (git_pull (sample_env\<lparr>is_repo := False\<rparr>) sample_world)) = False
   \<and> files (snd (handle_journal_write (sample_env\<lparr>is_repo := False\<rparr>) sample_world
                   sample_write_args))
        (global_journal_path (sample_env\<lparr>is_repo := False\<rparr>)) = None"
proof -
  have "handle_journal_write (sample_env\<lparr>is_repo := False\<rparr>) sample_world sample_write_args
      = (Inr [''Warning: not a git repository''], sample_world\<lparr>steps := [StepPull]\<rparr>)"
    by (simp add: handle_journal_write_def sample_write_args_simps sample_pull_not_a_repo)
  then have "files (snd (handle_journal_write (sample_env\<lparr>is_repo := False\<rparr>) sample_world
                   sample_write_args))
        (global_journal_path (sample_env\<lparr>is_repo := False\<rparr>)) = files sample_world
        (global_journal_path (sample_env\<lparr>is_repo := False\<rparr>))"
    by simp
  moreover have "files sample_world p = None" for p
    by (simp add: sample_world_def)
  moreover have "fst (fst (git_pull (sample_env\<lparr>is_repo := False\<rparr>) sample_world)) = False"
    by (simp add: sample_pull_not_a_repo)
  ultimately show ?thesis by simp
qed

text \<open>
  Claim C2, as amended. A write with its content and type given and a scope the journal
  log knows executes, in order: the pull; then, if the pull succeeded, the append and
  the commit; then, if the commit succeeded, the push. It executes no search-index
  update: the rows of every index are as before.
\<close>

theorem write_steps:
  assumes "arguments ''content'' = Some content" and "arguments ''type'' = Some entry_type"
    and "(case arguments ''scope'' of None \<Rightarrow> ''project'' | Some s \<Rightarrow> s)
           \<in> {''global'', ''project''}"
  shows "steps (snd (handle_journal_write e w arguments)) = steps w @
           (if \<not> (is_repo e \<and> (\<not> has_remote e \<or> fst (pull_outcome e))) then [StepPull]
            else if \<not> fst (commit_outcome e) then [StepPull, StepAppend, StepCommit]
            else [StepPull, StepAppend, StepCommit, StepPush])
       \<and> index_rows (snd (handle_journal_write e w arguments)) = index_rows w"
proof -
  define scope where "scope = (case arguments ''scope'' of None \<Rightarrow> ''project'' | Some s \<Rightarrow> s)"
  obtain ok msg w1 where pull: "git_pull e w = ((ok, msg), w1)"
    by (metis surj_pair)
  have r: "ok = (is_repo e \<and> (\<not> has_remote e \<or> fst (pull_outcome e)))"
    and w1: "steps w1 = steps w @ [StepPull]" "index_rows w1 = index_rows w"
    using git_pull_result[of e w] pull by simp_all
  show ?thesis
  proof (cases ok)
    case False
    then show ?thesis using assms(1,2) pull r w1
      by (simp add: handle_journal_write_def)
  next
    case True
    from assms(3) obtain p w2 where res: "resolve_journal_path e w1 scope (cwd e) = Inr (p, w2)"
      using resolve_journal_path_known[of scope e w1 "cwd e"] scope_def by auto
    note fr = resolve_journal_path_frame[OF res]
    define w3 where "w3 = append_entry e w2 p content entry_type"
    have w3: "steps w3 = steps w @ [StepPull, StepAppend]" "index_rows w3 = index_rows w"
      using fr w1 by (simp_all add: w3_def append_entry_def)
    define cm where "cm = ''['' @ scope @ ''] '' @ entry_type @ '': '' @ take 50 content"
    obtain cok cmsg w4 where com: "git_commit e w3 p cm = ((cok, cmsg), w4)"
      by (metis surj_pair)
    have rc: "cok = fst (commit_outcome e)"
      and w4: "steps w4 = steps w @ [StepPull, StepAppend, StepCommit]"
        "index_rows w4 = index_rows w"
      using git_commit_result[of e w3 p cm] com True r w3 by simp_all
    obtain pok pmsg w5 where push: "git_push e w4 = ((pok, pmsg), w5)"
      by (metis surj_pair)
    have w5: "steps w5 = steps w @ [StepPull, StepAppend, StepCommit, StepPush]"
      "index_rows w5 = index_rows w"
      using git_push_result[of e w4] push w4 by simp_all
    have "handle_journal_write e w arguments =
        (if \<not> cok then (Inr [''Entry written but commit failed: '' @ cmsg], w4)
         else if \<not> pok
           then (Inr [''Entry written and committed, but push failed: '' @ pmsg], w5)
         else (Inr [''Journal entry written to '' @ p], w5))"
      using assms(1,2) pull True res com push
      by (simp add: handle_journal_write_def Let_def scope_def w3_def cm_def)
    then show ?thesis using True r rc w4 w5 by simp
  qed
qed

text \<open>Witness for C2: a write whose commit fails, which stops after the commit.\<close>

theorem write_steps_witness:
  "sample_write_args ''content'' = Some ''First entry''
   \<and> sample_write_args ''type'' = Some ''insight''
   \<and> (case sample_write_args ''scope'' of None \<Rightarrow> ''project'' | Some s \<Rightarrow> s)
        \<in> {''global'', ''project''}
   \<and> steps (snd (handle_journal_write (sample_env\<lparr>commit_outcome := (False, ''nothing to commit'')\<rparr>)
                   sample_world sample_write_args))
        = [StepPull, StepAppend, StepCommit]
   \<and> index_rows (snd (handle_journal_write
                        (sample_env\<lparr>commit_outcome := (False, ''nothing to commit'')\<rparr>)
                        sample_world sample_write_args)) = Map.empty"
  using write_steps[of sample_write_args "''First entry''" "''insight''"
      "sample_env\<lparr>commit_outcome := (False, ''nothing to commit'')\<rparr>" sample_world]
  by (simp add: sample_write_args_simps sample_env_def sample_world_def)

text \<open>
  Counterexample to C2 as stated: in a write where every step succeeds the steps
  executed are pull, append, commit, push, which is not the sequence of the
  specification: there is no index update between the append and the commit.
\<close>

theorem no_index_update_in_write:
  "steps (snd (handle_journal_write sample_env sample_world sample_write_args))
     = [StepPull, StepAppend, StepCommit, StepPush]
   \<and> steps (snd (handle_journal_write sample_env sample_world sample_write_args))
       \<noteq> spec_write_steps"
  by (simp add: handle_journal_write_def sample_write_args_simps git_pull_def git_commit_def
      git_push_def resolve_journal_path_def append_entry_def Let_def sample_env_def
      sample_world_def spec_write_steps_def)

text \<open>
  Claim C4. In a write whose pull succeeded and whose journal path resolved, the entry
  is appended; if then the commit fails, or the commit succeeds and the push fails, the
  files the handler leaves are still those after the pull with the encoded entry
  appended to the journal, and the result is one partial-success text naming the failed
  step: "Entry written but commit failed: ..." or "Entry written and committed, but
  push failed: ...". After a successful pull the journals root is a repository, so the
  commit fails exactly when the commit command does, and the push fails exactly when
  there is a remote and the push command fails.
\<close>

theorem write_partial_success_keeps_entry:
  assumes "arguments ''content'' = Some content" and "arguments ''type'' = Some entry_type"
    and "git_pull e w = ((True, pull_msg), w1)"
    and "resolve_journal_path e w1
           (case arguments ''scope'' of None \<Rightarrow> ''project'' | Some s \<Rightarrow> s) (cwd e)
         = Inr (journal_path, w2)"
    and "\<not> fst (commit_outcome e) \<or> (has_remote e \<and> \<not> fst (push_outcome e))"
  shows "fst (handle_journal_write e w arguments) =
           Inr [if \<not> fst (commit_outcome e)
                then ''Entry written but commit failed: '' @ snd (commit_outcome e)
                else ''Entry written and committed, but push failed: ''
                       @ snd (push_outcome e)]
       \<and> files (snd (handle_journal_write e w arguments)) =
           (files w1)(journal_path \<mapsto>
              read_journal w1 journal_path @ format_entry content entry_type (now e))"
proof -
  define scope where "scope = (case arguments ''scope'' of None \<Rightarrow> ''project'' | Some s \<Rightarrow> s)"
  have repo: "is_repo e"
    using git_pull_result(1)[of e w] assms(3) by simp
  note fr = resolve_journal_path_frame[OF assms(4)]
  define w3 where "w3 = append_entry e w2 journal_path content entry_type"
  have w3: "files w3 = (files w1)(journal_path \<mapsto>
              read_journal w1 journal_path @ format_entry content entry_type (now e))"
    using fr by (simp add: w3_def append_entry_def read_journal_def)
  define cm where "cm = ''['' @ scope @ ''] '' @ entry_type @ '': '' @ take 50 content"
  obtain cok cmsg w4 where com: "git_commit e w3 journal_path cm = ((cok, cmsg), w4)"
    by (metis surj_pair)
  have rc: "cok = fst (commit_outcome e)" "cmsg = snd (commit_outcome e)"
    and w4: "files w4 = files w3"
    using git_commit_result[of e w3 journal_path cm] com repo by simp_all
  obtain pok pmsg w5 where push: "git_push e w4 = ((pok, pmsg), w5)"
    by (metis surj_pair)
  have rp: "pok = (\<not> has_remote e \<or> fst (push_outcome e))"
    "has_remote e \<Longrightarrow> pmsg = snd (push_outcome e)"
    and w5: "files w5 = files w3"
    using git_push_result[of e w4] push w4 repo by simp_all
  have "handle_journal_write e w arguments =
      (if \<not> cok then (Inr [''Entry written but commit failed: '' @ cmsg], w4)
       else if \<not> pok
         then (Inr [''Entry written and committed, but push failed: '' @ pmsg], w5)
       else (Inr [''Journal entry written to '' @ journal_path], w5))"
    using assms(1,2,3,4) com push
    by (simp add: handle_journal_write_def Let_def scope_def w3_def cm_def)
  then show ?thesis using assms(5) rc rp w3 w4 w5 by auto
qed

text \<open>Witness for C4: a write whose push is rejected by the remote.\<close>

theorem write_partial_success_keeps_entry_witness:
  "sample_write_args ''content'' = Some ''First entry''
   \<and> sample_write_args ''type'' = Some ''insight''
   \<and> git_pull (sample_env\<lparr>push_outcome := (False, ''rejected'')\<rparr>) sample_world
        = ((True, ''pulled''), sample_world\<lparr>steps := [StepPull]\<rparr>)
   \<and> fst (handle_journal_write (sample_env\<lparr>push_outcome := (False, ''rejected'')\<rparr>)
             sample_world sample_write_args)
        = Inr [''Entry written and committed, but push failed: rejected'']
   \<and> files (snd (handle_journal_write (sample_env\<lparr>push_outcome := (False, ''rejected'')\<rparr>)
                    sample_world sample_write_args)) ''/j/global/journal.md''
        = Some ''## [2025-10-06 14:30:45] insight\<newline>\<newline>First entry\<newline>\<newline>---\<newline>''"
  using write_partial_success_keeps_entry[OF sample_write_args_simps(1,2) sample_pull_ok,
      of "global_journal_path (sample_env\<lparr>push_outcome := (False, ''rejected'')\<rparr>)"
         "sample_world\<lparr>steps := [StepPull]\<rparr>"]
    sample_write_args_simps sample_pull_ok
  by (simp add: sample_resolve_global global_journal_path_def path_join_def sample_env_def
      sample_world_def read_journal_def format_entry_def)

section \<open>Properties of the search handler\<close>

text \<open>
  Claim C6, as amended. The search handler matches by Python's case-insensitive
  regular expression search of the query in the raw text of each entry block, and does
  no stemming: whatever \<^verbatim>\<open>re.compile(query, re.IGNORECASE)\<close> returns for the query, with
  no type filter a block is among the results exactly when it is the stripped form of a
  non-blank entry of a searched journal in which that compiled pattern is found.
\<close>

theorem search_matches_by_pattern:
  assumes "arguments ''query'' = Some query" and "arguments ''type'' = None"
    and "re_compile e query = Some pattern"
    and "journals_to_search e (snd (git_pull e w))
           (case arguments ''scope'' of None \<Rightarrow> ''both'' | Some s \<Rightarrow> s) = (journals, w2)"
  shows "fst (handle_journal_search e w arguments) =
           Inr [if scan_journals w2 pattern None journals [] = []
                then ''No matching journal entries found''
                else py_join result_separator (scan_journals w2 pattern None journals [])]
       \<and> (\<forall>b. b \<in> set (scan_journals w2 pattern None journals []) \<longleftrightarrow>
              (\<exists>j \<in> set journals. \<exists>entry \<in> set (journal_entries w2 j).
                  b = py_strip entry \<and> b \<noteq> [] \<and> pattern entry))"
proof -
  have sel: "entry_selected pattern None entry \<longleftrightarrow> py_strip entry \<noteq> [] \<and> pattern entry"
    for entry
    by (simp add: entry_selected_def type_mismatch_def)
  have "fst (handle_journal_search e w arguments) =
           Inr [if scan_journals w2 pattern None journals [] = []
                then ''No matching journal entries found''
                else py_join result_separator (scan_journals w2 pattern None journals [])]"
    using handle_journal_search_run[OF assms(1,4)] assms(2,3) by simp
  moreover have "b \<in> set (scan_journals w2 pattern None journals []) \<longleftrightarrow>
              (\<exists>j \<in> set journals. \<exists>entry \<in> set (journal_entries w2 j).
                  b = py_strip entry \<and> b \<noteq> [] \<and> pattern entry)" for b
    unfolding scan_journals_eq by (auto simp: sel)
  ultimately show ?thesis by blast
qed

text \<open>
  Witness for C6: the query "Entry" is found, whatever the case of its letters, in both
  entries of the sample journal.
\<close>

theorem search_matches_by_pattern_witness:
  "plain_search_args ''query'' = Some ''Entry'' \<and> plain_search_args ''type'' = None
   \<and> re_compile sample_env ''Entry'' = Some (contains_ic ''Entry'')
   \<and> journals_to_search sample_env (snd (git_pull sample_env search_world))
        (case plain_search_args ''scope'' of None \<Rightarrow> ''both'' | Some s \<Rightarrow> s)
       = ([''/j/global/journal.md''], search_world\<lparr>steps := [StepPull]\<rparr>)
   \<and> fst (handle_journal_search sample_env search_world plain_search_args) =
       Inr [''## [2025-10-06 14:30:00] insight\<newline>\<newline>An insight entry\<newline>\<newline>---\<newline>\<newline>## [2025-10-06 15:00:00] decision\<newline>\<newline>A decision entry'']"
proof -
  have rc: "re_compile sample_env ''Entry'' = Some (contains_ic ''Entry'')"
    by (simp add: sample_env_simps plain_engine_Entry)
  have js: "journals_to_search sample_env (snd (git_pull sample_env search_world))
        (case plain_search_args ''scope'' of None \<Rightarrow> ''both'' | Some s \<Rightarrow> s)
       = ([''/j/global/journal.md''], search_world\<lparr>steps := [StepPull]\<rparr>)"
    using sample_journals_global by (simp add: plain_search_args_simps)
  have sc: "scan_journals (search_world\<lparr>steps := [StepPull]\<rparr>) (contains_ic ''Entry'') None
      [''/j/global/journal.md''] []
     = [''## [2025-10-06 14:30:00] insight\<newline>\<newline>An insight entry'',
        ''## [2025-10-06 15:00:00] decision\<newline>\<newline>A decision entry'']"
    using sample_scan_plain[of "[StepPull]"] by (simp add: scan_journals_eq)
  have "fst (handle_journal_search sample_env search_world plain_search_args) =
       Inr [''## [2025-10-06 14:30:00] insight\<newline>\<newline>An insight entry\<newline>\<newline>---\<newline>\<newline>## [2025-10-06 15:00:00] decision\<newline>\<newline>A decision entry'']"
    using conjunct1[OF search_matches_by_pattern[OF plain_search_args_simps(1,3) rc js]]
    unfolding sc by (simp add: result_separator_def)
  then show ?thesis using rc js by (simp add: plain_search_args_simps)
qed

text \<open>
  Counterexample to C6 as stated: the only entry of the journal holds the word
  "implement", which has the stem of the query "implementing", and the search finds
  nothing.
\<close>

theorem no_stemming_in_search:
  "read_journal stem_world (global_journal_path sample_env)
     = ''## [2025-10-06 14:30:00] insight\<newline>\<newline>We implement features\<newline>\<newline>---\<newline>''
   \<and> stem_search_args ''query'' = Some ''implementing''
   \<and> fst (handle_journal_search sample_env stem_world stem_search_args)
       = Inr [''No matching journal entries found'']"
proof -
  have js: "journals_to_search sample_env (snd (git_pull sample_env stem_world))
        (case stem_search_args ''scope'' of None \<Rightarrow> ''both'' | Some s \<Rightarrow> s)
       = ([''/j/global/journal.md''], stem_world\<lparr>steps := [StepPull]\<rparr>)"
    by (simp add: stem_search_args_simps journals_to_search_global global_journal_path_sample
        stem_pull_search)
  have sc: "scan_journals (stem_world\<lparr>steps := [StepPull]\<rparr>) (contains_ic ''implementing'')
      None [''/j/global/journal.md''] [] = []"
    by (simp add: scan_journals_eq stem_world_entries entry_selected_def stem_entry_no_match
        py_strip_def)
  have "fst (handle_journal_search sample_env stem_world stem_search_args)
       = Inr [''No matching journal entries found'']"
    using handle_journal_search_run[OF stem_search_args_simps(1) js]
    by (simp add: sample_env_simps plain_engine_implementing stem_search_args_simps sc
        del: scan_journals.simps)
  moreover have "read_journal stem_world (global_journal_path sample_env)
     = ''## [2025-10-06 14:30:00] insight\<newline>\<newline>We implement features\<newline>\<newline>---\<newline>''"
    by (simp add: global_journal_path_sample read_journal_def stem_world_def stem_journal_def)
  ultimately show ?thesis by (simp add: stem_search_args_simps)
qed

text \<open>
  Claim C7. In a search that supplies a non-empty type, the list of results holds
  exactly the stripped forms of the non-blank entries of the searched journals in which
  the pattern is found and whose header pattern captures exactly the given type: the
  filter is a further condition on the entries the text query matches.
\<close>

theorem search_type_filter_conjunctive:
  assumes "arguments ''query'' = Some query" and "arguments ''type'' = Some ty" and "ty \<noteq> []"
    and "re_compile e query = Some pattern"
    and "journals_to_search e (snd (git_pull e w))
           (case arguments ''scope'' of None \<Rightarrow> ''both'' | Some s \<Rightarrow> s) = (journals, w2)"
  shows "fst (handle_journal_search e w arguments) =
           Inr [if scan_journals w2 pattern (Some ty) journals [] = []
                then ''No matching journal entries found''
                else py_join result_separator (scan_journals w2 pattern (Some ty) journals [])]
       \<and> (\<forall>b. b \<in> set (scan_journals w2 pattern (Some ty) journals []) \<longleftrightarrow>
              (\<exists>j \<in> set journals. \<exists>entry \<in> set (journal_entries w2 j).
                  b = py_strip entry \<and> b \<noteq> [] \<and> pattern entry
                  \<and> header_search entry = Some ty))"
proof -
  have sel: "entry_selected pattern (Some ty) entry \<longleftrightarrow>
      py_strip entry \<noteq> [] \<and> pattern entry \<and> header_search entry = Some ty" for entry
    using assms(3) by (auto simp: entry_selected_def type_mismatch_def split: option.splits)
  have "fst (handle_journal_search e w arguments) =
           Inr [if scan_journals w2 pattern (Some ty) journals [] = []
                then ''No matching journal entries found''
                else py_join result_separator (scan_journals w2 pattern (Some ty) journals [])]"
    using handle_journal_search_run[OF assms(1,5)] assms(2,4) by simp
  moreover have "b \<in> set (scan_journals w2 pattern (Some ty) journals []) \<longleftrightarrow>
              (\<exists>j \<in> set journals. \<exists>entry \<in> set (journal_entries w2 j).
                  b = py_strip entry \<and> b \<noteq> [] \<and> pattern entry
                  \<and> header_search entry = Some ty)" for b
    unfolding scan_journals_eq by (auto simp: sel)
  ultimately show ?thesis by blast
qed

text \<open>
  Witness for C7: both entries of the sample journal match "Entry"; with the type
  "decision" only the second is returned.
\<close>

theorem search_type_filter_conjunctive_witness:
  "typed_search_args ''query'' = Some ''Entry'' \<and> typed_search_args ''type'' = Some ''decision''
   \<and> ''decision'' \<noteq> []
   \<and> re_compile sample_env ''Entry'' = Some (contains_ic ''Entry'')
   \<and> journals_to_search sample_env (snd (git_pull sample_env search_world))
        (case typed_search_args ''scope'' of None \<Rightarrow> ''both'' | Some s \<Rightarrow> s)
       = ([''/j/global/journal.md''], search_world\<lparr>steps := [StepPull]\<rparr>)
   \<and> fst (handle_journal_search sample_env search_world typed_search_args)
       = Inr [''## [2025-10-06 15:00:00] decision\<newline>\<newline>A decision entry'']"
proof -
  have ne: "''decision'' \<noteq> []" by simp
  have rc: "re_compile sample_env ''Entry'' = Some (contains_ic ''Entry'')"
    by (simp add: sample_env_simps plain_engine_Entry)
  have js: "journals_to_search sample_env (snd (git_pull sample_env search_world))
        (case typed_search_args ''scope'' of None \<Rightarrow> ''both'' | Some s \<Rightarrow> s)
       = ([''/j/global/journal.md''], search_world\<lparr>steps := [StepPull]\<rparr>)"
    using sample_journals_global by (simp add: typed_search_args_simps)
  have "fst (handle_journal_search sample_env search_world typed_search_args)
       = Inr [''## [2025-10-06 15:00:00] decision\<newline>\<newline>A decision entry'']"
    using conjunct1[OF search_type_filter_conjunctive[OF typed_search_args_simps(1,3) ne rc js]]
    unfolding sample_scan_typed by simp
  then show ?thesis using rc js by (simp add: typed_search_args_simps)
qed

text \<open>
  Claim C8, as amended. In a search whose query is given and compiles, the result is
  one text and never an exception: the no-match message when no entry is selected, and
  otherwise the selected blocks, in order, joined by a blank line, the delimiter and a
  blank line.
\<close>

theorem search_result_text:
  assumes "arguments ''query'' = Some query" and "re_compile e query = Some pattern"
    and "journals_to_search e (snd (git_pull e w))
           (case arguments ''scope'' of None \<Rightarrow> ''both'' | Some s \<Rightarrow> s) = (journals, w2)"
    and "matched = concat (map (\<lambda>j. map py_strip
           (filter (entry_selected pattern (arguments ''type'')) (journal_entries w2 j))) journals)"
  shows "handle_journal_search e w arguments =
           (Inr [if matched = [] then ''No matching journal entries found''
                 else py_join result_separator matched], w2)"
  using handle_journal_search_run[OF assms(1,3)] assms(2,4)
  by (simp add: scan_journals_eq)

text \<open>Witness for C8: two blocks joined by the separator.\<close>

theorem search_result_text_witness:
  "plain_search_args ''query'' = Some ''Entry''
   \<and> re_compile sample_env ''Entry'' = Some (contains_ic ''Entry'')
   \<and> journals_to_search sample_env (snd (git_pull sample_env search_world))
        (case plain_search_args ''scope'' of None \<Rightarrow> ''both'' | Some s \<Rightarrow> s)
       = ([''/j/global/journal.md''], search_world\<lparr>steps := [StepPull]\<rparr>)
   \<and> handle_journal_search sample_env search_world plain_search_args
       = (Inr [''## [2025-10-06 14:30:00] insight\<newline>\<newline>An insight entry\<newline>\<newline>---\<newline>\<newline>## [2025-10-06 15:00:00] decision\<newline>\<newline>A decision entry''],
          search_world\<lparr>steps := [StepPull]\<rparr>)"
proof -
  have rc: "re_compile sample_env ''Entry'' = Some (contains_ic ''Entry'')"
    by (simp add: sample_env_simps plain_engine_Entry)
  have js: "journals_to_search sample_env (snd (git_pull sample_env search_world))
        (case plain_search_args ''scope'' of None \<Rightarrow> ''both'' | Some s \<Rightarrow> s)
       = ([''/j/global/journal.md''], search_world\<lparr>steps := [StepPull]\<rparr>)"
    using sample_journals_global by (simp add: plain_search_args_simps)
  have m: "[''## [2025-10-06 14:30:00] insight\<newline>\<newline>An insight entry'',
      ''## [2025-10-06 15:00:00] decision\<newline>\<newline>A decision entry'']
     = concat (map (\<lambda>j. map py_strip
           (filter (entry_selected (contains_ic ''Entry'') (plain_search_args ''type''))
              (journal_entries (search_world\<lparr>steps := [StepPull]\<rparr>) j)))
           [''/j/global/journal.md''])"
    unfolding plain_search_args_simps(3) sample_scan_plain ..
  have "handle_journal_search sample_env search_world plain_search_args
       = (Inr [''## [2025-10-06 14:30:00] insight\<newline>\<newline>An insight entry\<newline>\<newline>---\<newline>\<newline>## [2025-10-06 15:00:00] decision\<newline>\<newline>A decision entry''],
          search_world\<lparr>steps := [StepPull]\<rparr>)"
    using search_result_text[OF plain_search_args_simps(1) rc js m]
    by (simp add: result_separator_def)
  then show ?thesis using rc js by (simp add: plain_search_args_simps)
qed

text \<open>
  Counterexample to C8 as stated: a search whose query is a lone opening parenthesis,
  which \<^verbatim>\<open>re.compile\<close> rejects, ends in the exception and in neither of the two
  results.
\<close>

theorem invalid_pattern_raises:
  "invalid_search_args ''query'' = Some ''(''
   \<and> re_compile sample_env ''('' = None
   \<and> fst (handle_journal_search sample_env search_world invalid_search_args) = Inl ReError"
proof -
  have js: "journals_to_search sample_env (snd (git_pull sample_env search_world))
        (case invalid_search_args ''scope'' of None \<Rightarrow> ''both'' | Some s \<Rightarrow> s)
       = ([''/j/global/journal.md''], search_world\<lparr>steps := [StepPull]\<rparr>)"
    using sample_journals_global by (simp add: invalid_search_args_simps)
  have rc: "re_compile sample_env ''('' = None"
    by (simp add: sample_env_simps plain_engine_paren)
  have "fst (handle_journal_search sample_env search_world invalid_search_args) = Inl ReError"
    using handle_journal_search_run[OF invalid_search_args_simps(1) js]
    by (simp add: rc del: scan_journals.simps)
  with rc show ?thesis by (simp add: invalid_search_args_simps)
qed

text \<open>
  Claim C9. The search handler discards what the pull answers. Whatever the pull
  returns, success or failure with any message, a search whose query compiles goes on
  to its end: it returns one text, which is the no-match message or the selected blocks
  of the journals as the pull attempt left them, and so never a warning or an error
  made from the pull; the files are those the pull attempt left, unchanged when the
  journals root is not a repository or has no remote. Moreover the whole outcome of the
  handler is the same for every success flag and message of the pull, and in a
  journals root that is not a repository (the pull fails) it is the outcome of a search
  in a repository without a remote (the pull succeeds trivially).
\<close>

theorem search_discards_pull_outcome:
  assumes "arguments ''query'' = Some query" and "re_compile e query = Some pattern"
    and "git_pull e w = ((ok, pull_msg), w1)"
    and "journals_to_search e w1
           (case arguments ''scope'' of None \<Rightarrow> ''both'' | Some s \<Rightarrow> s) = (journals, w2)"
    and "matched = concat (map (\<lambda>j. map py_strip
           (filter (entry_selected pattern (arguments ''type'')) (journal_entries w2 j))) journals)"
  shows "handle_journal_search e w arguments =
           (Inr [if matched = [] then ''No matching journal entries found''
                 else py_join result_separator matched], w2)
       \<and> files w2 = (if is_repo e \<and> has_remote e then pull_merge e (files w) else files w)
       \<and> steps w2 = steps w @ [StepPull]
       \<and> handle_journal_search (e\<lparr>pull_outcome := outcome\<rparr>) w arguments
            = handle_journal_search e w arguments
       \<and> (\<not> is_repo e \<longrightarrow>
            handle_journal_search e w arguments
              = handle_journal_search (e\<lparr>is_repo := True, has_remote := False\<rparr>) w arguments)"
proof -
  have w1: "snd (git_pull e w) = w1" using assms(3) by simp
  have run: "handle_journal_search e w arguments =
           (Inr [if matched = [] then ''No matching journal entries found''
                 else py_join result_separator matched], w2)"
  proof -
    have "journals_to_search e (snd (git_pull e w))
        (case arguments ''scope'' of None \<Rightarrow> ''both'' | Some s \<Rightarrow> s) = (journals, w2)"
      using assms(4) w1 by simp
    from handle_journal_search_run[OF assms(1) this] assms(2,5) show ?thesis
      by (simp add: scan_journals_eq)
  qed
  have fr: "files w2 = (if is_repo e \<and> has_remote e then pull_merge e (files w) else files w)"
    "steps w2 = steps w @ [StepPull]"
    using journals_to_search_frame(1,2)[OF assms(4)] git_pull_result(2)[of e w] w1
    by auto
  have same: "handle_journal_search e' w arguments = handle_journal_search e w arguments"
    if pull: "snd (git_pull e' w) = snd (git_pull e w)"
      and rest: "journals_dir e' = journals_dir e" "cwd e' = cwd e" "random_id e' = random_id e"
        "re_compile e' = re_compile e"
    for e'
  proof -
    define scope where "scope = (case arguments ''scope'' of None \<Rightarrow> ''both'' | Some s \<Rightarrow> s)"
    have js: "journals_to_search e (snd (git_pull e w)) scope = (journals, w2)"
      using assms(4) w1 by (simp add: scope_def)
    have "journals_to_search e' v scope = journals_to_search e v scope" for v
      using rest
      by (simp add: journals_to_search_def get_or_create_project_id_def
          global_journal_path_def get_project_journal_path_def Let_def split: option.splits)
    with js pull have js': "journals_to_search e' (snd (git_pull e' w)) scope = (journals, w2)"
      by simp
    show ?thesis
      using handle_journal_search_run[OF assms(1) js[unfolded scope_def]]
        handle_journal_search_run[OF assms(1) js'[unfolded scope_def]] rest
      by simp
  qed
  have inv: "handle_journal_search (e\<lparr>pull_outcome := outcome\<rparr>) w arguments
      = handle_journal_search e w arguments"
    by (rule same) (simp_all add: git_pull_result)
  have norepo: "handle_journal_search (e\<lparr>is_repo := True, has_remote := False\<rparr>) w arguments
      = handle_journal_search e w arguments" if "\<not> is_repo e"
    using that by (intro same) (simp_all add: git_pull_result)
  show ?thesis using run fr inv norepo by simp
qed

text \<open>
  Witness for C9: in a journals root that is not a repository the pull fails, and the
  search returns both matching entries of the journal that is there.
\<close>

theorem search_discards_pull_outcome_witness:
  "plain_search_args ''query'' = Some ''Entry''
   \<and> re_compile (sample_env\<lparr>is_repo := False\<rparr>) ''Entry'' = Some (contains_ic ''Entry'')
   \<and> git_pull (sample_env\<lparr>is_repo := False\<rparr>) search_world
        = ((False, ''not a git repository''), search_world\<lparr>steps := [StepPull]\<rparr>)
   \<and> \<not> is_repo (sample_env\<lparr>is_repo := False\<rparr>)
   \<and> handle_journal_search (sample_env\<lparr>is_repo := False\<rparr>) search_world plain_search_args
       = (Inr [''## [2025-10-06 14:30:00] insight\<newline>\<newline>An insight entry\<newline>\<newline>---\<newline>\<newline>## [2025-10-06 15:00:00] decision\<newline>\<newline>A decision entry''],
          search_world\<lparr>steps := [StepPull]\<rparr>)
   \<and> files (search_world\<lparr>steps := [StepPull]\<rparr>) = files search_world
   \<and> handle_journal_search (sample_env\<lparr>is_repo := False\<rparr>) search_world plain_search_args
       = handle_journal_search (sample_env\<lparr>is_repo := False, is_repo := True, has_remote := False\<rparr>)
           search_world plain_search_args"
proof -
  let ?e = "sample_env\<lparr>is_repo := False\<rparr>"
  have rc: "re_compile ?e ''Entry'' = Some (contains_ic ''Entry'')"
    by (simp add: sample_env_simps plain_engine_Entry)
  have pull: "git_pull ?e search_world
        = ((False, ''not a git repository''), search_world\<lparr>steps := [StepPull]\<rparr>)"
    by (simp add: git_pull_def search_world_def sample_world_def)
  have js: "journals_to_search ?e (search_world\<lparr>steps := [StepPull]\<rparr>)
        (case plain_search_args ''scope'' of None \<Rightarrow> ''both'' | Some s \<Rightarrow> s)
       = ([''/j/global/journal.md''], search_world\<lparr>steps := [StepPull]\<rparr>)"
    by (simp add: plain_search_args_simps journals_to_search_global global_journal_path_def
        path_join_def sample_env_simps)
  have m: "[''## [2025-10-06 14:30:00] insight\<newline>\<newline>An insight entry'',
      ''## [2025-10-06 15:00:00] decision\<newline>\<newline>A decision entry'']
     = concat (map (\<lambda>j. map py_strip
           (filter (entry_selected (contains_ic ''Entry'') (plain_search_args ''type''))
              (journal_entries (search_world\<lparr>steps := [StepPull]\<rparr>) j)))
           [''/j/global/journal.md''])"
    unfolding plain_search_args_simps(3) sample_scan_plain ..
  note th = search_discards_pull_outcome[OF plain_search_args_simps(1) rc pull js m,
      where outcome = "(False, ''conflict'')"]
  have nr: "\<not> is_repo ?e" by simp
  have a: "handle_journal_search ?e search_world plain_search_args
       = (Inr [''## [2025-10-06 14:30:00] insight\<newline>\<newline>An insight entry\<newline>\<newline>---\<newline>\<newline>## [2025-10-06 15:00:00] decision\<newline>\<newline>A decision entry''],
          search_world\<lparr>steps := [StepPull]\<rparr>)"
    using conjunct1[OF th] by (simp add: result_separator_def)
  have b: "handle_journal_search ?e search_world plain_search_args
       = handle_journal_search (?e\<lparr>is_repo := True, has_remote := False\<rparr>)
           search_world plain_search_args"
    using th nr by blast
  show ?thesis using rc pull a b by (simp add: plain_search_args_simps)
qed

text \<open>
  Claim C10. A search with scope project or both, in a working directory without a
  sidecar, leaves a sidecar for that directory holding a newly generated id of 8
  lowercase hexadecimal characters; it writes no entry: the files are those the pull
  left, and the pull is the only step executed.
\<close>

theorem search_creates_project_sidecar:
  assumes "arguments ''query'' = Some query"
    and "(case arguments ''scope'' of None \<Rightarrow> ''both'' | Some s \<Rightarrow> s) \<in> {''project'', ''both''}"
    and "sidecars w (cwd e) = None"
  shows "sidecars (snd (handle_journal_search e w arguments))
           = (sidecars w)(cwd e \<mapsto> generate_project_id (random_id e))
       \<and> length (generate_project_id (random_id e)) = 8
       \<and> set (generate_project_id (random_id e)) \<subseteq> set ''0123456789abcdef''
       \<and> files (snd (handle_journal_search e w arguments)) = files (snd (git_pull e w))
       \<and> steps (snd (handle_journal_search e w arguments)) = steps w @ [StepPull]"
proof -
  define scope where "scope = (case arguments ''scope'' of None \<Rightarrow> ''both'' | Some s \<Rightarrow> s)"
  define w1 where "w1 = snd (git_pull e w)"
  have w1: "sidecars w1 = sidecars w" "steps w1 = steps w @ [StepPull]"
    by (simp_all add: w1_def git_pull_result)
  obtain journals w2 where js: "journals_to_search e w1 scope = (journals, w2)"
    by (metis surj_pair)
  have w2: "w2 = w1\<lparr>sidecars := (sidecars w)(cwd e \<mapsto> generate_project_id (random_id e))\<rparr>"
    using js assms(2,3) w1
    by (auto simp: journals_to_search_def get_or_create_project_id_def Let_def scope_def
        split: if_splits)
  have "snd (handle_journal_search e w arguments) = w2"
    using handle_journal_search_run[OF assms(1) js[unfolded w1_def scope_def]]
    by (simp split: option.splits)
  then show ?thesis using w2 w1 generate_project_id_shape by (simp add: w1_def)
qed

text \<open>
  Witness for C10: after the search the sidecar exists, and the journal of the new
  project does not.
\<close>

theorem search_creates_project_sidecar_witness:
  "project_search_args ''query'' = Some ''Entry''
   \<and> (case project_search_args ''scope'' of None \<Rightarrow> ''both'' | Some s \<Rightarrow> s)
        \<in> {''project'', ''both''}
   \<and> sidecars search_world (cwd sample_env) = None
   \<and> sidecars (snd (handle_journal_search sample_env search_world project_search_args)) ''/p''
        = Some ''a3f8b2c9''
   \<and> files (snd (handle_journal_search sample_env search_world project_search_args))
        (get_project_journal_path sample_env ''a3f8b2c9'') = None
   \<and> steps (snd (handle_journal_search sample_env search_world project_search_args))
        = [StepPull]"
proof -
  have sc: "(case project_search_args ''scope'' of None \<Rightarrow> ''both'' | Some s \<Rightarrow> s)
        \<in> {''project'', ''both''}"
    by (simp add: project_search_args_simps)
  have sd: "sidecars search_world (cwd sample_env) = None"
    by (simp add: search_world_def sample_world_def)
  note th = search_creates_project_sidecar[OF project_search_args_simps(1) sc sd]
  have a: "sidecars (snd (handle_journal_search sample_env search_world project_search_args))
      ''/p'' = Some ''a3f8b2c9''"
    using th by (simp add: sample_env_simps sample_project_id)
  have "files (snd (handle_journal_search sample_env search_world project_search_args))
      = files search_world"
    using th by (simp add: sample_pull_search)
  then have b: "files (snd (handle_journal_search sample_env search_world project_search_args))
        (get_project_journal_path sample_env ''a3f8b2c9'') = None"
    by (simp add: get_project_journal_path_def path_join_def sample_env_simps search_world_def)
  have c: "steps (snd (handle_journal_search sample_env search_world project_search_args))
        = [StepPull]"
    using th by (simp add: search_world_def sample_world_def)
  show ?thesis using sc sd a b c by (simp add: project_search_args_simps)
qed

section \<open>Properties of the staleness test\<close>



end
